theory Spec2Isabelle
  imports Main
begin

section \<open>Entity store (src/database/models.py)\<close>

text \<open>
  The tables of the relational store are lists of rows in insertion order; a query
  \<^verbatim>\<open>db.query(T).filter(p).first()\<close> is \<^const>\<open>find\<close> on the table, which
  yields the first row satisfying the filter or \<open>None\<close>.  Nullable columns are options.
  Only the columns the repository functions read or write are kept; the timestamps the
  database fills in by itself (\<^verbatim>\<open>default=func.now()\<close>) are left out.
\<close>

datatype UserRoleEnum = role_user | role_moder | role_admin

record User =
  id_user :: int
  role :: UserRoleEnum

record Foto =
  id_foto :: int
  image_url :: "string option"
  transform_url :: "string option"
  title_foto :: "string option"
  descr :: "string option"
  created_at :: nat
  updated_at :: nat
  tags_foto :: "int list"
  done_foto :: bool
  user_id_foto :: "int option"
  public_id :: "string option"

record Tag =
  id_tag :: int
  title_tag :: string
  user_id_tag :: "int option"

record Rating =
  id_rating :: int
  rate :: int
  foto_id :: int
  user_id_rating :: "int option"

text \<open>Values passed to the image service: strings, integers, dictionaries, lists.\<close>

datatype pyval =
    VStr string
  | VInt int
  | VDict "(string \<times> pyval) list"
  | VList "pyval list"

text \<open>The calls made to the external image service, in the order they are made.\<close>

datatype cloud_call =
    InitCloudinary
  | Upload string string
  | BuildUrl "string option" "(string \<times> pyval) list"

text \<open>
  The state a request handler works on: the three tables and the trace of calls to the
  image service.
\<close>

record Session =
  fotos :: "Foto list"
  ratings :: "Rating list"
  tags :: "Tag list"
  cloudinary_calls :: "cloud_call list"

text \<open>
  Modelled from the spec: src/conf/messages.py is not among the sources; the fixed
  message texts are kept as symbolic constants under the names the code uses.
\<close>

datatype message = OWN_FOTO | VOTE_TWICE | NOT_FOUND

datatype error =
    HTTPException nat message
  | AttributeError

text \<open>The key the database gives to a newly inserted row: one more than the largest.\<close>

definition next_id :: "int list \<Rightarrow> int" where
  "next_id ids = fold max ids 0 + 1"

text \<open>An attribute assignment on the row a query returned, followed by a commit.\<close>

fun update_first :: "('a \<Rightarrow> bool) \<Rightarrow> ('a \<Rightarrow> 'a) \<Rightarrow> 'a list \<Rightarrow> 'a list" where
  "update_first p g [] = []"
| "update_first p g (x # xs) = (if p x then g x # xs else x # update_first p g xs)"

section \<open>Rating engine (src/repository/ratings.py)\<close>

definition create_rate :: "int \<Rightarrow> int \<Rightarrow> Session \<Rightarrow> User \<Rightarrow> error + (Rating option \<times> Session)" where
  "create_rate fid r db u =
    (let is_self_foto = find (\<lambda>f. id_foto f = fid \<and> user_id_foto f = Some (id_user u)) (fotos db);
         already_voted = find (\<lambda>x. foto_id x = fid \<and> user_id_rating x = Some (id_user u)) (ratings db);
         foto_exists = find (\<lambda>f. id_foto f = fid) (fotos db)
     in if is_self_foto \<noteq> None then Inl (HTTPException 423 OWN_FOTO)
        else if already_voted \<noteq> None then Inl (HTTPException 423 VOTE_TWICE)
        else if foto_exists \<noteq> None then
          (let new_rate = \<lparr>id_rating = next_id (map id_rating (ratings db)), rate = r,
                            foto_id = fid, user_id_rating = Some (id_user u)\<rparr>
           in Inr (Some new_rate, db\<lparr>ratings := ratings db @ [new_rate]\<rparr>))
        else Inr (None, db))"

text \<open>
  In \<^verbatim>\<open>edit_rate\<close> the test \<^verbatim>\<open>user.role in [admin, moder] or rate.user_id == user.id\<close>
  reads \<^verbatim>\<open>rate.user_id\<close> only when the role test fails; on a missing rating that read
  raises \<^verbatim>\<open>AttributeError\<close>.
\<close>

definition edit_rate :: "int \<Rightarrow> int \<Rightarrow> Session \<Rightarrow> User \<Rightarrow> error + (Rating option \<times> Session)" where
  "edit_rate rate_id new_rate db u =
    (let found = find (\<lambda>x. id_rating x = rate_id) (ratings db);
         commit = (\<lambda>x. Inr (Some (x\<lparr>rate := new_rate\<rparr>),
                       db\<lparr>ratings := update_first (\<lambda>y. id_rating y = rate_id)
                                        (\<lambda>y. y\<lparr>rate := new_rate\<rparr>) (ratings db)\<rparr>))
     in if role u = role_admin \<or> role u = role_moder then
          (case found of None \<Rightarrow> Inr (None, db) | Some x \<Rightarrow> commit x)
        else
          (case found of
             None \<Rightarrow> Inl AttributeError
           | Some x \<Rightarrow> if user_id_rating x = Some (id_user u) then commit x else Inr (Some x, db)))"

section \<open>Tag resolver (src/repository/fotos.py, src/repository/tags.py)\<close>

fun get_tags :: "string list \<Rightarrow> User \<Rightarrow> Session \<Rightarrow> Tag list \<times> Session" where
  "get_tags [] u db = ([], db)"
| "get_tags (tag_title # rest) u db =
    (let (tag, db1) =
       (case find (\<lambda>g. title_tag g = tag_title) (tags db) of
          Some g \<Rightarrow> (g, db)
        | None \<Rightarrow>
            (let g = \<lparr>id_tag = next_id (map id_tag (tags db)), title_tag = tag_title,
                      user_id_tag = Some (id_user u)\<rparr>
             in (g, db\<lparr>tags := tags db @ [g]\<rparr>)));
         (found, db2) = get_tags rest u db1
     in (tag # found, db2))"

definition create_tag :: "string \<Rightarrow> User \<Rightarrow> Session \<Rightarrow> Tag \<times> Session" where
  "create_tag body_title u db =
    (case find (\<lambda>g. title_tag g = body_title) (tags db) of
       Some g \<Rightarrow> (g, db)
     | None \<Rightarrow>
         (let g = \<lparr>id_tag = next_id (map id_tag (tags db)), title_tag = body_title,
                   user_id_tag = Some (id_user u)\<rparr>
          in (g, db\<lparr>tags := tags db @ [g]\<rparr>)))"

section \<open>Rendering values into strings\<close>

text \<open>What an f-string \<^verbatim>\<open>f"{n}"\<close> gives for an integer: its decimal numeral.\<close>

function str_nat :: "nat \<Rightarrow> string" where
  "str_nat n =
    (if n < 10 then [''0123456789'' ! n]
     else str_nat (n div 10) @ [''0123456789'' ! (n mod 10)])"
  by pat_completeness auto
termination
  by (relation "measure (\<lambda>n. n)") auto

declare str_nat.simps [simp del]

definition str_int :: "int \<Rightarrow> string" where
  "str_int i = (if i < 0 then CHR ''-'' # str_nat (nat (- i)) else str_nat (nat i))"

definition fstr_int :: "int option \<Rightarrow> string" where
  "fstr_int v = (case v of None \<Rightarrow> ''None'' | Some i \<Rightarrow> str_int i)"

definition fstr_str :: "string option \<Rightarrow> string" where
  "fstr_str v = (case v of None \<Rightarrow> ''None'' | Some s \<Rightarrow> s)"

text \<open>The truth value Python gives to an optional integer and to an optional string.\<close>

definition truthy_int :: "int option \<Rightarrow> bool" where
  "truthy_int v = (case v of None \<Rightarrow> False | Some i \<Rightarrow> i \<noteq> 0)"

definition truthy_str :: "string option \<Rightarrow> bool" where
  "truthy_str v = (case v of None \<Rightarrow> False | Some s \<Rightarrow> s \<noteq> [])"

text \<open>\<^verbatim>\<open>s.split(",")\<close>: the pieces between the separators; the empty string gives one empty piece.\<close>

fun split_on :: "char \<Rightarrow> string \<Rightarrow> string list" where
  "split_on c [] = [[]]"
| "split_on c (x # xs) =
    (if x = c then [] # split_on c xs
     else (case split_on c xs of [] \<Rightarrow> [[x]] | w # ws \<Rightarrow> (x # w) # ws))"

section \<open>Transformation compiler (src/repository/transform_foto.py)\<close>

text \<open>
  Modelled from the spec: src/tramsform_schemas.py, which declares the request body
  \<^verbatim>\<open>TransformBodyModel\<close>, is not among the sources.  The five groups and their fields are
  the ones \<^verbatim>\<open>transform_metod\<close> reads and the tests fill in; a numeric or text parameter may
  be absent (\<open>None\<close>).
\<close>

record CircleModel =
  circle_use_filter :: bool
  circle_height :: "int option"
  circle_width :: "int option"

record EffectModel =
  effect_use_filter :: bool
  art_audrey :: bool
  art_zorro :: bool
  blur :: bool
  cartoonify :: bool

record ResizeModel =
  resize_use_filter :: bool
  crop :: bool
  fill :: bool
  resize_height :: "int option"
  resize_width :: "int option"

record TextModel =
  text_use_filter :: bool
  font_size :: "int option"
  text_text :: "string option"

record RotateModel =
  rotate_use_filter :: bool
  rotate_width :: "int option"
  degree :: "int option"

record TransformBodyModel =
  body_circle :: CircleModel
  body_effect :: EffectModel
  body_resize :: ResizeModel
  body_text :: TextModel
  body_rotate :: RotateModel

type_synonym operation = "(string \<times> pyval) list"

text \<open>The five blocks of \<^verbatim>\<open>transform_metod\<close>, each giving what it appends to the list.\<close>

definition circle_ops :: "CircleModel \<Rightarrow> operation list" where
  "circle_ops c =
    (if circle_use_filter c \<and> truthy_int (circle_height c) \<and> truthy_int (circle_width c) then
       [[(''gravity'', VStr ''face''), (''height'', VStr (fstr_int (circle_height c))),
         (''width'', VStr (fstr_int (circle_width c))), (''crop'', VStr ''thumb'')],
        [(''radius'', VStr ''max'')]]
     else [])"

definition effect_ops :: "EffectModel \<Rightarrow> operation list" where
  "effect_ops e =
    (if effect_use_filter e then
       (let effect = [];
            effect = (if art_audrey e then ''art:audrey'' else effect);
            effect = (if art_zorro e then ''art:zorro'' else effect);
            effect = (if blur e then ''blur:300'' else effect);
            effect = (if cartoonify e then ''cartoonify'' else effect)
        in if effect \<noteq> [] then [[(''effect'', VStr effect)]] else [])
     else [])"

text \<open>The resize block tests the height twice and the width not at all, as the source does.\<close>

definition resize_ops :: "ResizeModel \<Rightarrow> operation list" where
  "resize_ops r =
    (if resize_use_filter r \<and> truthy_int (resize_height r) \<and> truthy_int (resize_height r) then
       (let mode = [];
            mode = (if crop r then ''crop'' else mode);
            mode = (if fill r then ''fill'' else mode)
        in if mode \<noteq> [] then
             [[(''gravity'', VStr ''auto''), (''height'', VStr (fstr_int (resize_height r))),
               (''width'', VStr (fstr_int (resize_width r))), (''crop'', VStr mode)]]
           else [])
     else [])"

definition text_ops :: "TextModel \<Rightarrow> operation list" where
  "text_ops t =
    (if text_use_filter t \<and> truthy_int (font_size t) \<and> truthy_str (text_text t) then
       [[(''color'', VStr ''#FFFF00''),
         (''overlay'', VDict [(''font_family'', VStr ''Times''),
                              (''font_size'', VStr (fstr_int (font_size t))),
                              (''font_weight'', VStr ''bold''),
                              (''text'', VStr (fstr_str (text_text t)))])],
        [(''flags'', VStr ''layer_apply''), (''gravity'', VStr ''south''), (''y'', VInt 20)]]
     else [])"

definition rotate_ops :: "RotateModel \<Rightarrow> operation list" where
  "rotate_ops r =
    (if rotate_use_filter r \<and> truthy_int (rotate_width r) \<and> truthy_int (degree r) then
       [[(''width'', VStr (fstr_int (rotate_width r))), (''crop'', VStr ''scale'')],
        [(''angle'', VStr ''vflip'')],
        [(''angle'', VStr (fstr_int (degree r)))]]
     else [])"

text \<open>The list \<^verbatim>\<open>transformation\<close> after the five blocks have run.\<close>

definition transformation :: "TransformBodyModel \<Rightarrow> operation list" where
  "transformation body =
     circle_ops (body_circle body) @ effect_ops (body_effect body)
     @ resize_ops (body_resize body) @ text_ops (body_text body)
     @ rotate_ops (body_rotate body)"



text \<open>
  The image service is a parameter: \<open>build_url\<close> takes the public identifier of the asset
  and the keyword arguments of the call and returns the URL.
\<close>

type_synonym url_builder = "string option \<Rightarrow> (string \<times> pyval) list \<Rightarrow> string"

definition transform_metod ::
  "url_builder \<Rightarrow> int \<Rightarrow> TransformBodyModel \<Rightarrow> User \<Rightarrow> Session \<Rightarrow> Foto option \<times> Session" where
  "transform_metod build_url fid body u db =
    (case find (\<lambda>f. user_id_foto f = Some (id_user u) \<and> id_foto f = fid) (fotos db) of
       None \<Rightarrow> (None, db)
     | Some foto \<Rightarrow>
         (let tr = transformation body in
          if tr \<noteq> [] then
            (let args = [(''transformation'', VList (map VDict tr))];
                 url = build_url (public_id foto) args
             in (Some (foto\<lparr>transform_url := Some url\<rparr>),
                 db\<lparr>fotos := update_first
                                (\<lambda>f. user_id_foto f = Some (id_user u) \<and> id_foto f = fid)
                                (\<lambda>f. f\<lparr>transform_url := Some url\<rparr>) (fotos db),
                    cloudinary_calls := cloudinary_calls db
                                        @ [InitCloudinary, BuildUrl (public_id foto) args]\<rparr>))
          else (Some foto, db)))"

text \<open>
  The QR renderer; \<open>qr\<close> stands for the library calls that encode the URL, draw the code
  as a PNG image and encode the bytes in base 64.
\<close>

definition show_qr :: "(string \<Rightarrow> string) \<Rightarrow> int \<Rightarrow> User \<Rightarrow> Session \<Rightarrow> string option" where
  "show_qr qr fid u db =
    (case find (\<lambda>f. user_id_foto f = Some (id_user u) \<and> id_foto f = fid) (fotos db) of
       None \<Rightarrow> None
     | Some foto \<Rightarrow>
         (case transform_url foto of
            None \<Rightarrow> None
          | Some url \<Rightarrow> if url \<noteq> [] then Some (qr url) else None))"

section \<open>Photo creation and update (src/repository/fotos.py)\<close>

definition create_foto ::
  "url_builder \<Rightarrow> nat \<Rightarrow> string \<Rightarrow> string \<Rightarrow> string list \<Rightarrow> string \<Rightarrow> Session \<Rightarrow> User
     \<Rightarrow> Foto \<times> Session" where
  "create_foto build_url now title dsc tag_field file db current_user =
    (let photo_number = (1 :: int);
         db_photo = find (\<lambda>f. user_id_foto f = Some (id_user current_user)
                               \<and> id_foto f = photo_number) (fotos db);
         photo_number = (if db_photo \<noteq> None then photo_number + 1 else photo_number);
         pid = ''PhotoShake/'' @ str_int photo_number;
         args = [(''width'', VInt 250), (''height'', VInt 250), (''crop'', VStr ''fill'')];
         url = build_url (Some (''PhotoShake/'' @ str_int photo_number)) args;
         url2 = url;
         db0 = db\<lparr>cloudinary_calls := cloudinary_calls db
                   @ [InitCloudinary, Upload file pid,
                      BuildUrl (Some (''PhotoShake/'' @ str_int photo_number)) args]\<rparr>;
         (tgs, db1) = (if tag_field \<noteq> []
                       then get_tags (split_on CHR '','' (hd tag_field)) current_user db0
                       else ([], db0));
         foto = \<lparr>id_foto = next_id (map id_foto (fotos db1)), image_url = Some url,
                 transform_url = Some url2, title_foto = Some title, descr = Some dsc,
                 created_at = now, updated_at = now, tags_foto = map id_tag tgs,
                 done_foto = True, user_id_foto = Some (id_user current_user),
                 public_id = Some pid\<rparr>
     in (foto, db1\<lparr>fotos := fotos db1 @ [foto]\<rparr>))"

record FotoUpdate =
  upd_title :: string
  upd_descr :: string
  upd_tags :: "string list"

definition update_foto :: "nat \<Rightarrow> int \<Rightarrow> FotoUpdate \<Rightarrow> User \<Rightarrow> Session \<Rightarrow> Foto option \<times> Session" where
  "update_foto now fid body u db =
    (case find (\<lambda>f. id_foto f = fid) (fotos db) of
       None \<Rightarrow> (None, db)
     | Some foto \<Rightarrow>
         (if role u = role_admin \<or> user_id_foto foto = Some (id_user u) then
            (let (tgs, db1) = (if upd_tags body \<noteq> [] then get_tags (upd_tags body) u db
                               else ([], db));
                 upd = (\<lambda>f. f\<lparr>title_foto := Some (upd_title body), descr := Some (upd_descr body),
                               tags_foto := map id_tag tgs, updated_at := now, done_foto := True\<rparr>)
             in (Some (upd foto),
                 db1\<lparr>fotos := update_first (\<lambda>f. id_foto f = fid) upd (fotos db1)\<rparr>))
          else (Some foto, db)))"

section \<open>Runs of operations\<close>

text \<open>Requests that write photos, and requests that resolve tags, as commands on the store.\<close>

datatype foto_command =
    CreateFoto nat string string "string list" string User
  | TransformMetod int TransformBodyModel User
  | UpdateFoto nat int FotoUpdate User

fun exec_foto :: "url_builder \<Rightarrow> foto_command \<Rightarrow> Session \<Rightarrow> Session" where
  "exec_foto build_url (CreateFoto now title dsc tag_field file u) db =
     snd (create_foto build_url now title dsc tag_field file db u)"
| "exec_foto build_url (TransformMetod fid body u) db = snd (transform_metod build_url fid body u db)"
| "exec_foto build_url (UpdateFoto now fid body u) db = snd (update_foto now fid body u db)"

datatype tag_command =
    GetTags "string list" User
  | CreateTag string User

fun exec_tag :: "tag_command \<Rightarrow> Session \<Rightarrow> Session" where
  "exec_tag (GetTags titles u) db = snd (get_tags titles u db)"
| "exec_tag (CreateTag title u) db = snd (create_tag title u db)"

text \<open>
  The invariant of a title that has been resolved once: the query by title returns the
  tag \<open>g\<close>, and \<open>n\<close> rows carry the title.
\<close>

definition resolved :: "string \<Rightarrow> Tag \<Rightarrow> nat \<Rightarrow> Session \<Rightarrow> bool" where
  "resolved t g n db \<longleftrightarrow>
     find (\<lambda>g. title_tag g = t) (tags db) = Some g
     \<and> length (filter (\<lambda>g. title_tag g = t) (tags db)) = n"

text \<open>
  A photo is ready for the QR renderer when the query of \<^verbatim>\<open>show_qr\<close> finds it and its
  transform URL is not empty.
\<close>

definition qr_ready :: "int \<Rightarrow> User \<Rightarrow> Session \<Rightarrow> bool" where
  "qr_ready fid u db =
    (case find (\<lambda>f. user_id_foto f = Some (id_user u) \<and> id_foto f = fid) (fotos db) of
       None \<Rightarrow> False
     | Some f \<Rightarrow> truthy_str (transform_url f))"

section \<open>Example data\<close>

definition alice :: User where
  "alice = \<lparr>id_user = 1, role = role_user\<rparr>"

definition bob :: User where
  "bob = \<lparr>id_user = 2, role = role_user\<rparr>"

definition empty_db :: Session where
  "empty_db = \<lparr>fotos = [], ratings = [], tags = [], cloudinary_calls = []\<rparr>"

definition cat_foto :: Foto where
  "cat_foto = \<lparr>id_foto = 1, image_url = Some ''https://img.example/cat'',
                transform_url = Some ''https://img.example/cat'', title_foto = Some ''cat'',
                descr = Some ''pet'', created_at = 0, updated_at = 0, tags_foto = [],
                done_foto = True, user_id_foto = Some 1, public_id = Some ''Dominic''\<rparr>"

definition alice_vote :: Rating where
  "alice_vote = \<lparr>id_rating = 1, rate = 5, foto_id = 1, user_id_rating = Some 1\<rparr>"

text \<open>Alice owns photo 1 and a rating of photo 1 by her is stored as well.\<close>

definition db_self :: Session where
  "db_self = \<lparr>fotos = [cat_foto], ratings = [alice_vote], tags = [], cloudinary_calls = []\<rparr>"

text \<open>Alice's rating of photo 1 is stored, the photo itself is gone.\<close>

definition db_orphan :: Session where
  "db_orphan = \<lparr>fotos = [], ratings = [alice_vote], tags = [], cloudinary_calls = []\<rparr>"


definition demo_build_url :: url_builder where
  "demo_build_url pid args =
     ''https://img.example/'' @ (case pid of None \<Rightarrow> ''None'' | Some p \<Rightarrow> p)"

definition demo_qr :: "string \<Rightarrow> string" where
  "demo_qr url = ''QR:'' @ url"

definition no_circle :: CircleModel where
  "no_circle = \<lparr>circle_use_filter = False, circle_height = Some 400, circle_width = Some 400\<rparr>"

definition no_effect :: EffectModel where
  "no_effect = \<lparr>effect_use_filter = False, art_audrey = False, art_zorro = False,
                 blur = False, cartoonify = False\<rparr>"

definition no_resize :: ResizeModel where
  "no_resize = \<lparr>resize_use_filter = False, crop = True, fill = False,
                 resize_height = Some 400, resize_width = Some 400\<rparr>"

definition no_text :: TextModel where
  "no_text = \<lparr>text_use_filter = False, font_size = Some 70, text_text = Some []\<rparr>"

definition no_rotate :: RotateModel where
  "no_rotate = \<lparr>rotate_use_filter = False, rotate_width = Some 400, degree = Some 45\<rparr>"

definition body_off :: TransformBodyModel where
  "body_off = \<lparr>body_circle = no_circle, body_effect = no_effect, body_resize = no_resize,
                body_text = no_text, body_rotate = no_rotate\<rparr>"

text \<open>Only the resize group is enabled, with both \<open>crop\<close> and \<open>fill\<close> set.\<close>

definition body_resize_both :: TransformBodyModel where
  "body_resize_both =
     body_off\<lparr>body_resize := \<lparr>resize_use_filter = True, crop = True, fill = True,
                                 resize_height = Some 400, resize_width = Some 400\<rparr>\<rparr>"

text \<open>Only the rotate group is enabled, width 400, by 45 degrees and by 0 degrees.\<close>

definition body_rotate_45 :: TransformBodyModel where
  "body_rotate_45 =
     body_off\<lparr>body_rotate := \<lparr>rotate_use_filter = True, rotate_width = Some 400,
                                 degree = Some 45\<rparr>\<rparr>"

definition body_rotate_0 :: TransformBodyModel where
  "body_rotate_0 =
     body_off\<lparr>body_rotate := \<lparr>rotate_use_filter = True, rotate_width = Some 400,
                                 degree = Some 0\<rparr>\<rparr>"

definition all_effects :: EffectModel where
  "all_effects = \<lparr>effect_use_filter = True, art_audrey = True, art_zorro = True,
                   blur = True, cartoonify = True\<rparr>"

definition cat_tag :: Tag where
  "cat_tag = \<lparr>id_tag = 1, title_tag = ''cat'', user_id_tag = Some 1\<rparr>"

definition db_cat_tag :: Session where
  "db_cat_tag = \<lparr>fotos = [], ratings = [], tags = [cat_tag], cloudinary_calls = []\<rparr>"

text \<open>Only the rotate group is enabled, width 0, by 45 degrees.\<close>

definition body_rotate_w0 :: TransformBodyModel where
  "body_rotate_w0 =
     body_off\<lparr>body_rotate := \<lparr>rotate_use_filter = True, rotate_width = Some 0,
                                 degree = Some 45\<rparr>\<rparr>"


section \<open>Properties of the rating engine\<close>

lemma find_eq_None_iff: "find p xs = None \<longleftrightarrow> \<not> (\<exists>x\<in>set xs. p x)"
  by (auto simp: find_None_iff)

text \<open>
  C1. The checks of casting a vote run in the order self-vote, duplicate vote, not found.
  In every store: when the rater owns the photo the call fails with the self-vote error
  (status 423, message \<open>OWN_FOTO\<close>), whether or not the rater has voted before; when the
  rater does not own the photo and a rating of the pair (photo, rater) exists, the call
  fails with the duplicate-vote error (status 423, message \<open>VOTE_TWICE\<close>), whether or not
  a photo with that id exists.
\<close>

theorem create_rate_check_order:
  "((\<exists>f\<in>set (fotos db). id_foto f = fid \<and> user_id_foto f = Some (id_user u))
      \<longrightarrow> create_rate fid r db u = Inl (HTTPException 423 OWN_FOTO))
   \<and> (\<not> (\<exists>f\<in>set (fotos db). id_foto f = fid \<and> user_id_foto f = Some (id_user u))
      \<and> (\<exists>x\<in>set (ratings db). foto_id x = fid \<and> user_id_rating x = Some (id_user u))
      \<longrightarrow> create_rate fid r db u = Inl (HTTPException 423 VOTE_TWICE))"
  unfolding create_rate_def Let_def find_eq_None_iff by simp

theorem create_rate_check_order_witness:
  "(\<exists>f\<in>set (fotos db_self). id_foto f = 1 \<and> user_id_foto f = Some (id_user alice))
   \<and> (\<exists>x\<in>set (ratings db_self). foto_id x = 1 \<and> user_id_rating x = Some (id_user alice))
   \<and> create_rate 1 5 db_self alice = Inl (HTTPException 423 OWN_FOTO)
   \<and> \<not> (\<exists>f\<in>set (fotos db_orphan). id_foto f = 1)
   \<and> (\<exists>x\<in>set (ratings db_orphan). foto_id x = 1 \<and> user_id_rating x = Some (id_user alice))
   \<and> create_rate 1 3 db_orphan alice = Inl (HTTPException 423 VOTE_TWICE)"
  using create_rate_check_order [of db_self 1 alice 5]
        create_rate_check_order [of db_orphan 1 alice 3]
  by (simp add: db_self_def db_orphan_def cat_foto_def alice_vote_def alice_def)

text \<open>
  A second vote on the same photo by the same rater, after a first one went through, is
  refused as a duplicate whatever the two rate values are.
\<close>

lemma create_rate_twice:
  assumes "create_rate fid r1 db u = Inr (Some x, db')"
  shows "create_rate fid r2 db' u = Inl (HTTPException 423 VOTE_TWICE)"
  using assms unfolding create_rate_def Let_def find_eq_None_iff
  by (auto split: if_splits)

text \<open>
  C2, as stated: when no photo with the given id exists and the rater has no rating of it,
  casting a vote fails with a not-found error of status 404.  \<^verbatim>\<open>create_rate\<close> has no
  branch for that case: it raises nothing and returns \<open>None\<close>.  Here Bob votes on
  photo 3, which is not in the store.
\<close>

theorem create_rate_missing_foto_counterexample:
  "3 \<notin> set (map id_foto (fotos db_self))
   \<and> create_rate 3 3 db_self bob = Inr (None, db_self)
   \<and> create_rate 3 3 db_self bob \<noteq> Inl (HTTPException 404 NOT_FOUND)"
  by (simp add: create_rate_def db_self_def cat_foto_def alice_vote_def bob_def)

text \<open>
  C2, amended: in every store in which no photo with the given id exists and no rating of
  the pair (photo, rater) exists, \<^verbatim>\<open>create_rate\<close> raises no error; it returns \<open>None\<close>,
  creates no rating and leaves the store as it was.  Reporting 404 is left to the caller.
\<close>

theorem create_rate_missing_foto:
  assumes "fid \<notin> set (map id_foto (fotos db))"
    and "\<not> (\<exists>x\<in>set (ratings db). foto_id x = fid \<and> user_id_rating x = Some (id_user u))"
  shows "create_rate fid r db u = Inr (None, db)"
proof -
  have "find (\<lambda>f. id_foto f = fid) (fotos db) = None"
    using assms(1) by (auto simp: find_None_iff)
  moreover have "find (\<lambda>f. id_foto f = fid \<and> user_id_foto f = Some (id_user u)) (fotos db) = None"
    using assms(1) by (auto simp: find_None_iff)
  moreover have "find (\<lambda>x. foto_id x = fid \<and> user_id_rating x = Some (id_user u)) (ratings db) = None"
    using assms(2) by (auto simp: find_None_iff)
  ultimately show ?thesis by (simp add: create_rate_def)
qed

theorem create_rate_missing_foto_witness:
  "3 \<notin> set (map id_foto (fotos db_self))
   \<and> \<not> (\<exists>x\<in>set (ratings db_self). foto_id x = 3 \<and> user_id_rating x = Some (id_user bob))
   \<and> create_rate 3 3 db_self bob = Inr (None, db_self)"
  using create_rate_missing_foto [of 3 db_self bob 3]
  by (simp add: db_self_def cat_foto_def alice_vote_def bob_def)

text \<open>
  C3. Editing a vote is meant to be a silent no-op when the rating does not exist.  For an
  actor who is neither administrator nor moderator the code reads the owner of the missing
  rating before it tests whether the rating was found, and raises \<^verbatim>\<open>AttributeError\<close>:
  Bob, a plain user, edits rating 2, which is not in the store.
\<close>

theorem edit_rate_missing_rating_raises:
  "2 \<notin> set (map id_rating (ratings db_self))
   \<and> role bob = role_user
   \<and> edit_rate 2 3 db_self bob = Inl AttributeError"
  by (simp add: edit_rate_def db_self_def alice_vote_def bob_def)

text \<open>The cases of editing a vote in which nothing is raised.\<close>

lemma edit_rate_permitted:
  assumes "find (\<lambda>x. id_rating x = rate_id) (ratings db) = Some x"
    and "role u = role_admin \<or> role u = role_moder \<or> user_id_rating x = Some (id_user u)"
  shows "edit_rate rate_id new_rate db u =
           Inr (Some (x\<lparr>rate := new_rate\<rparr>),
                db\<lparr>ratings := update_first (\<lambda>y. id_rating y = rate_id)
                                 (\<lambda>y. y\<lparr>rate := new_rate\<rparr>) (ratings db)\<rparr>)"
  using assms by (auto simp: edit_rate_def Let_def)

lemma edit_rate_not_permitted:
  assumes "find (\<lambda>x. id_rating x = rate_id) (ratings db) = Some x"
    and "role u = role_user" and "user_id_rating x \<noteq> Some (id_user u)"
  shows "edit_rate rate_id new_rate db u = Inr (Some x, db)"
  using assms by (simp add: edit_rate_def Let_def)

lemma edit_rate_missing_privileged:
  assumes "find (\<lambda>x. id_rating x = rate_id) (ratings db) = None"
    and "role u = role_admin \<or> role u = role_moder"
  shows "edit_rate rate_id new_rate db u = Inr (None, db)"
  using assms by (auto simp: edit_rate_def Let_def)

section \<open>Properties of the transformation compiler\<close>

lemma str_int_400: "str_int 400 = ''400''"
  by (simp add: str_int_def str_nat.simps)

lemma str_int_45: "str_int 45 = ''45''"
  by (simp add: str_int_def str_nat.simps)

text \<open>
  C4, as stated: the resize group emits its operation only if exactly one of \<open>crop\<close> and
  \<open>fill\<close> is set, so a request with both set compiles to nothing.  The code sets the mode
  to \<open>crop\<close> and then overwrites it with \<open>fill\<close>: with only the resize group enabled,
  height and width 400 and both flags set, one operation with mode \<open>fill\<close> is emitted.
\<close>

theorem resize_both_counterexample:
  "crop (body_resize body_resize_both) \<and> fill (body_resize body_resize_both)
   \<and> transformation body_resize_both =
       [[(''gravity'', VStr ''auto''), (''height'', VStr ''400''), (''width'', VStr ''400''),
         (''crop'', VStr ''fill'')]]"
  by (simp add: body_resize_both_def body_off_def no_circle_def no_effect_def no_text_def
      no_rotate_def transformation_def circle_ops_def effect_ops_def resize_ops_def text_ops_def
      rotate_ops_def truthy_int_def fstr_int_def str_int_400)

text \<open>
  C4, amended: for every request whose resize width is present and not zero, the resize
  group emits its single auto-gravity resize operation if and only if its enable flag is
  set, the height is present and not zero, and at least one of \<open>crop\<close> and \<open>fill\<close> is set;
  the mode is \<open>fill\<close> when \<open>fill\<close> is set and \<open>crop\<close> otherwise.  In all other such requests
  the group is skipped without error.
\<close>

theorem resize_ops_emits:
  assumes "truthy_int (resize_width r)"
  shows "resize_ops r =
    (if resize_use_filter r \<and> truthy_int (resize_height r) \<and> (crop r \<or> fill r) then
       [[(''gravity'', VStr ''auto''), (''height'', VStr (fstr_int (resize_height r))),
         (''width'', VStr (fstr_int (resize_width r))),
         (''crop'', VStr (if fill r then ''fill'' else ''crop''))]]
     else [])"
  by (simp add: resize_ops_def Let_def)

theorem resize_ops_emits_witness:
  "truthy_int (resize_width (body_resize body_resize_both))
   \<and> resize_ops (body_resize body_resize_both) =
       [[(''gravity'', VStr ''auto''), (''height'', VStr ''400''), (''width'', VStr ''400''),
         (''crop'', VStr ''fill'')]]
   \<and> truthy_int (resize_width no_resize) \<and> resize_ops no_resize = []"
  using resize_ops_emits [of "body_resize body_resize_both"] resize_ops_emits [of no_resize]
  by (simp add: body_resize_both_def body_off_def no_resize_def truthy_int_def fstr_int_def
      str_int_400)

text \<open>
  The width is never tested by the resize block (the height is tested twice): with the
  width absent the operation is still emitted, carrying the text \<open>None\<close> as its width.
\<close>

lemma resize_ops_width_absent:
  "resize_ops \<lparr>resize_use_filter = True, crop = True, fill = False,
               resize_height = Some 400, resize_width = None\<rparr> =
     [[(''gravity'', VStr ''auto''), (''height'', VStr ''400''), (''width'', VStr ''None''),
       (''crop'', VStr ''crop'')]]"
  by (simp add: resize_ops_def Let_def truthy_int_def fstr_int_def str_int_400)

text \<open>
  C5, as stated: whenever the rotate group is enabled and both width and degree are
  present, three operations are emitted.  The code tests the two parameters for truth, and
  a degree of 0 is false: with only the rotate group enabled, width 400 and degree 0, the
  group is skipped and nothing is emitted.
\<close>

theorem rotate_zero_counterexample:
  "rotate_use_filter (body_rotate body_rotate_0)
   \<and> rotate_width (body_rotate body_rotate_0) = Some 400
   \<and> degree (body_rotate body_rotate_0) = Some 0
   \<and> rotate_ops (body_rotate body_rotate_0) = []
   \<and> transformation body_rotate_0 = []"
  by (simp add: body_rotate_0_def body_off_def no_circle_def no_effect_def no_text_def
      no_resize_def transformation_def circle_ops_def effect_ops_def resize_ops_def text_ops_def
      rotate_ops_def truthy_int_def)

text \<open>
  C5, amended: for every request with the rotate group enabled and both width and degree
  present and not zero, the compiler emits exactly three operations for the group, in the
  order scale to the width, vertical flip, rotate by the degree; they are the last
  operations of the compiled list, and the flip is there whenever the group qualifies.
  When the group is disabled, or the width or the degree is absent or 0, the group is
  skipped: it emits nothing and the compiled list is what the other four groups give.
\<close>

theorem rotate_ops_three:
  "(rotate_use_filter (body_rotate body) \<and> rotate_width (body_rotate body) = Some w \<and> w \<noteq> 0
      \<and> degree (body_rotate body) = Some d \<and> d \<noteq> 0 \<longrightarrow>
        rotate_ops (body_rotate body) =
          [[(''width'', VStr (str_int w)), (''crop'', VStr ''scale'')],
           [(''angle'', VStr ''vflip'')],
           [(''angle'', VStr (str_int d))]]
        \<and> transformation body =
          (circle_ops (body_circle body) @ effect_ops (body_effect body)
           @ resize_ops (body_resize body) @ text_ops (body_text body))
          @ [[(''width'', VStr (str_int w)), (''crop'', VStr ''scale'')],
             [(''angle'', VStr ''vflip'')],
             [(''angle'', VStr (str_int d))]])
   \<and> (\<not> rotate_use_filter (body_rotate body)
        \<or> rotate_width (body_rotate body) = None \<or> rotate_width (body_rotate body) = Some 0
        \<or> degree (body_rotate body) = None \<or> degree (body_rotate body) = Some 0 \<longrightarrow>
        rotate_ops (body_rotate body) = []
        \<and> transformation body =
          circle_ops (body_circle body) @ effect_ops (body_effect body)
          @ resize_ops (body_resize body) @ text_ops (body_text body))"
  by (auto simp: rotate_ops_def transformation_def truthy_int_def fstr_int_def split: option.splits)

theorem rotate_ops_three_witness:
  "rotate_use_filter (body_rotate body_rotate_45)
   \<and> rotate_width (body_rotate body_rotate_45) = Some 400
   \<and> degree (body_rotate body_rotate_45) = Some 45
   \<and> transformation body_rotate_45 =
       [[(''width'', VStr ''400''), (''crop'', VStr ''scale'')],
        [(''angle'', VStr ''vflip'')],
        [(''angle'', VStr ''45'')]]
   \<and> rotate_use_filter (body_rotate body_rotate_0)
   \<and> degree (body_rotate body_rotate_0) = Some 0
   \<and> rotate_ops (body_rotate body_rotate_0) = []
   \<and> rotate_use_filter (body_rotate body_rotate_w0)
   \<and> rotate_width (body_rotate body_rotate_w0) = Some 0
   \<and> rotate_ops (body_rotate body_rotate_w0) = []
   \<and> transformation body_rotate_w0 = []"
  using rotate_ops_three [of body_rotate_45 400 45] rotate_ops_three [of body_rotate_0]
    rotate_ops_three [of body_rotate_w0]
  by (simp add: body_rotate_45_def body_rotate_0_def body_rotate_w0_def body_off_def
      no_circle_def no_effect_def no_text_def
      no_resize_def circle_ops_def effect_ops_def resize_ops_def text_ops_def
      str_int_400 str_int_45)

text \<open>
  C6. With the effect group enabled, the sub-flag checked last wins: \<open>cartoonify\<close> over
  \<open>blur\<close> over \<open>art:zorro\<close> over \<open>art:audrey\<close>, and exactly one effect operation with that
  name is emitted; with no sub-flag set the group contributes nothing although it is
  enabled.  With the group disabled it contributes nothing either.
\<close>

theorem effect_ops_priority:
  "effect_ops e =
    (if \<not> effect_use_filter e then []
     else if cartoonify e then [[(''effect'', VStr ''cartoonify'')]]
     else if blur e then [[(''effect'', VStr ''blur:300'')]]
     else if art_zorro e then [[(''effect'', VStr ''art:zorro'')]]
     else if art_audrey e then [[(''effect'', VStr ''art:audrey'')]]
     else [])"
  by (simp add: effect_ops_def)

theorem effect_ops_priority_witness:
  "effect_ops all_effects = [[(''effect'', VStr ''cartoonify'')]]
   \<and> effect_ops (all_effects\<lparr>cartoonify := False\<rparr>) = [[(''effect'', VStr ''blur:300'')]]
   \<and> effect_ops (all_effects\<lparr>cartoonify := False, blur := False\<rparr>)
       = [[(''effect'', VStr ''art:zorro'')]]
   \<and> effect_ops (all_effects\<lparr>cartoonify := False, blur := False, art_zorro := False\<rparr>)
       = [[(''effect'', VStr ''art:audrey'')]]
   \<and> effect_ops (all_effects\<lparr>cartoonify := False, blur := False, art_zorro := False,
                               art_audrey := False\<rparr>) = []"
  using effect_ops_priority [of all_effects]
    effect_ops_priority [of "all_effects\<lparr>cartoonify := False\<rparr>"]
    effect_ops_priority [of "all_effects\<lparr>cartoonify := False, blur := False\<rparr>"]
    effect_ops_priority [of "all_effects\<lparr>cartoonify := False, blur := False, art_zorro := False\<rparr>"]
    effect_ops_priority [of "all_effects\<lparr>cartoonify := False, blur := False, art_zorro := False,
                               art_audrey := False\<rparr>"]
  by (simp add: all_effects_def)









section \<open>Properties of the tag resolver\<close>

lemma find_append_Some:
  assumes "find p xs = Some x"
  shows "find p (xs @ ys) = Some x"
  using assms by (induction xs) (auto split: if_splits)

lemma find_append_None:
  assumes "find p xs = None"
  shows "find p (xs @ ys) = find p ys"
  using assms by (induction xs) (auto split: if_splits)

lemma find_title_None:
  "find (\<lambda>g. title_tag g = t) gs = None \<longleftrightarrow> t \<notin> set (map title_tag gs)"
  by (auto simp: find_None_iff)

lemma find_title_Some:
  assumes "find (\<lambda>g. title_tag g = t) gs = Some g"
  shows "title_tag g = t"
  using assms by (auto simp: find_Some_iff)

text \<open>What one resolution does to the table of tags: nothing, or one row at the end.\<close>

lemma create_tag_known:
  assumes "find (\<lambda>g. title_tag g = t) (tags db) = Some g"
  shows "create_tag t u db = (g, db)"
  using assms by (simp add: create_tag_def)

lemma create_tag_new:
  assumes "find (\<lambda>g. title_tag g = t) (tags db) = None"
  shows "create_tag t u db =
           (\<lparr>id_tag = next_id (map id_tag (tags db)), title_tag = t,
             user_id_tag = Some (id_user u)\<rparr>,
            db\<lparr>tags := tags db @ [\<lparr>id_tag = next_id (map id_tag (tags db)), title_tag = t,
                                    user_id_tag = Some (id_user u)\<rparr>]\<rparr>)"
  using assms by (simp add: create_tag_def Let_def)

lemma get_tags_Cons:
  "get_tags (t # ts) u db =
     (case create_tag t u db of (g, db1) \<Rightarrow>
        (case get_tags ts u db1 of (gs, db2) \<Rightarrow> (g # gs, db2)))"
  by (simp add: create_tag_def Let_def split: option.splits prod.splits)

lemma get_tags_single:
  "get_tags [t] u db = (case create_tag t u db of (g, db1) \<Rightarrow> ([g], db1))"
  by (simp add: get_tags_Cons del: get_tags.simps(2) split: prod.splits)

lemma snd_get_tags_Cons:
  "snd (get_tags (t # ts) u db) = snd (get_tags ts u (snd (create_tag t u db)))"
  by (simp add: get_tags_Cons del: get_tags.simps(2) split: prod.splits)

lemma create_tag_finds:
  assumes "create_tag t u db = (g, db1)"
  shows "find (\<lambda>g. title_tag g = t) (tags db1) = Some g"
proof (cases "find (\<lambda>g. title_tag g = t) (tags db)")
  case None
  with assms show ?thesis
    by (auto simp: create_tag_new find_append_None)
next
  case (Some a)
  with assms show ?thesis by (simp add: create_tag_known)
qed

lemma create_tag_resolved:
  assumes "resolved t g n db"
  shows "resolved t g n (snd (create_tag t' u db))"
proof (cases "find (\<lambda>g. title_tag g = t') (tags db)")
  case None
  from assms have "find (\<lambda>g. title_tag g = t) (tags db) = Some g"
    by (simp add: resolved_def)
  with None have "t' \<noteq> t" by auto
  with assms None show ?thesis
    by (simp add: create_tag_new resolved_def find_append_Some)
next
  case (Some a)
  with assms show ?thesis by (simp add: create_tag_known)
qed

lemma get_tags_resolved:
  assumes "resolved t g n db"
  shows "resolved t g n (snd (get_tags ts u db))"
  using assms
proof (induction ts arbitrary: db)
  case Nil
  then show ?case by simp
next
  case (Cons a ts)
  from create_tag_resolved [OF Cons.prems, of a u]
  have "resolved t g n (snd (get_tags ts u (snd (create_tag a u db))))"
    by (rule Cons.IH)
  then show ?case
    by (simp add: snd_get_tags_Cons del: get_tags.simps(2))
qed

lemma exec_tag_resolved:
  assumes "resolved t g n db"
  shows "resolved t g n (exec_tag c db)"
  using assms by (cases c) (simp_all add: get_tags_resolved create_tag_resolved)

lemma fold_exec_tag_resolved:
  assumes "resolved t g n db"
  shows "resolved t g n (fold exec_tag cs db)"
  using assms by (induction cs arbitrary: db) (simp_all add: exec_tag_resolved)

lemma create_tag_distinct:
  assumes "distinct (map title_tag (tags db))"
  shows "distinct (map title_tag (tags (snd (create_tag t u db))))"
proof (cases "find (\<lambda>g. title_tag g = t) (tags db)")
  case None
  then have "t \<notin> set (map title_tag (tags db))" by (simp add: find_title_None)
  with assms None show ?thesis by (simp add: create_tag_new)
next
  case (Some a)
  with assms show ?thesis by (simp add: create_tag_known)
qed

lemma get_tags_distinct:
  assumes "distinct (map title_tag (tags db))"
  shows "distinct (map title_tag (tags (snd (get_tags ts u db))))"
  using assms
proof (induction ts arbitrary: db)
  case Nil
  then show ?case by simp
next
  case (Cons a ts)
  from create_tag_distinct [OF Cons.prems, of a u]
  have "distinct (map title_tag (tags (snd (get_tags ts u (snd (create_tag a u db))))))"
    by (rule Cons.IH)
  then show ?case
    by (simp add: snd_get_tags_Cons del: get_tags.simps(2))
qed

lemma fold_exec_tag_distinct:
  assumes "distinct (map title_tag (tags db))"
  shows "distinct (map title_tag (tags (fold exec_tag cs db)))"
  using assms
proof (induction cs arbitrary: db)
  case Nil
  then show ?case by simp
next
  case (Cons c cs)
  have "distinct (map title_tag (tags (exec_tag c db)))"
    using Cons.prems by (cases c) (simp_all add: get_tags_distinct create_tag_distinct)
  then show ?case by (simp add: Cons.IH)
qed

text \<open>
  C8. Tags are keyed by title alone.  Once a title \<open>t\<close> has been resolved (by
  \<^verbatim>\<open>create_tag\<close> or by \<^verbatim>\<open>get_tags\<close>), every later resolution of \<open>t\<close>, by any user
  and after any number of other resolutions, returns the same tag row, hence the same id,
  and adds no row: the number of tags titled \<open>t\<close> never grows, and titles that were
  pairwise different stay so.  When \<open>t\<close> was new, the first resolver is the recorded owner and
  exactly one tag titled \<open>t\<close> exists.
\<close>

theorem tag_resolution_stable:
  assumes first: "create_tag t u1 db = (g1, db1)"
  shows "get_tags [t] u1 db = ([g1], db1)
       \<and> title_tag g1 = t
       \<and> (t \<notin> set (map title_tag (tags db)) \<longrightarrow>
            user_id_tag g1 = Some (id_user u1)
            \<and> length (filter (\<lambda>g. title_tag g = t) (tags db1)) = 1)
       \<and> create_tag t u2 (fold exec_tag cs db1) = (g1, fold exec_tag cs db1)
       \<and> get_tags [t] u2 (fold exec_tag cs db1) = ([g1], fold exec_tag cs db1)
       \<and> length (filter (\<lambda>g. title_tag g = t) (tags (fold exec_tag cs db1)))
           = length (filter (\<lambda>g. title_tag g = t) (tags db1))
       \<and> (distinct (map title_tag (tags db)) \<longrightarrow>
            distinct (map title_tag (tags (fold exec_tag cs db1))))"
proof -
  let ?n = "length (filter (\<lambda>g. title_tag g = t) (tags db1))"
  let ?db2 = "fold exec_tag cs db1"
  have a: "get_tags [t] u1 db = ([g1], db1)"
    using first by (simp add: get_tags_single del: get_tags.simps(2))
  have f1: "find (\<lambda>g. title_tag g = t) (tags db1) = Some g1"
    using first by (rule create_tag_finds)
  then have b: "title_tag g1 = t" by (rule find_title_Some)
  have c: "user_id_tag g1 = Some (id_user u1) \<and> length (filter (\<lambda>g. title_tag g = t) (tags db1)) = 1"
    if new: "t \<notin> set (map title_tag (tags db))"
  proof -
    from new have none: "find (\<lambda>g. title_tag g = t) (tags db) = None"
      by (simp add: find_title_None)
    from new have "filter (\<lambda>g. title_tag g = t) (tags db) = []"
      by (auto simp: filter_empty_conv)
    with first none show ?thesis by (auto simp: create_tag_new)
  qed
  from f1 have "resolved t g1 ?n db1" by (simp add: resolved_def)
  then have inv: "resolved t g1 ?n ?db2" by (rule fold_exec_tag_resolved)
  then have f2: "find (\<lambda>g. title_tag g = t) (tags ?db2) = Some g1"
    and e: "length (filter (\<lambda>g. title_tag g = t) (tags ?db2)) = ?n"
    by (simp_all add: resolved_def)
  from f2 have d: "create_tag t u2 ?db2 = (g1, ?db2)" by (rule create_tag_known)
  then have d': "get_tags [t] u2 ?db2 = ([g1], ?db2)"
    by (simp add: get_tags_single del: get_tags.simps(2))
  have g: "distinct (map title_tag (tags ?db2))" if "distinct (map title_tag (tags db))"
  proof -
    from create_tag_distinct [OF that, of t u1] first
    have "distinct (map title_tag (tags db1))" by simp
    then show ?thesis by (rule fold_exec_tag_distinct)
  qed
  from a b c d d' e g show ?thesis by blast
qed

theorem tag_resolution_stable_witness:
  "create_tag ''cat'' alice empty_db = (cat_tag, db_cat_tag)
   \<and> ''cat'' \<notin> set (map title_tag (tags empty_db))
   \<and> distinct (map title_tag (tags empty_db))
   \<and> user_id_tag cat_tag = Some (id_user alice)
   \<and> create_tag ''cat'' bob
        (fold exec_tag [GetTags [''dog'', ''cat''] bob, CreateTag ''bird'' bob] db_cat_tag) =
       (cat_tag, fold exec_tag [GetTags [''dog'', ''cat''] bob, CreateTag ''bird'' bob] db_cat_tag)
   \<and> get_tags [''cat''] bob
        (fold exec_tag [GetTags [''dog'', ''cat''] bob, CreateTag ''bird'' bob] db_cat_tag) =
       ([cat_tag], fold exec_tag [GetTags [''dog'', ''cat''] bob, CreateTag ''bird'' bob] db_cat_tag)
   \<and> length (filter (\<lambda>g. title_tag g = ''cat'')
        (tags (fold exec_tag [GetTags [''dog'', ''cat''] bob, CreateTag ''bird'' bob] db_cat_tag))) = 1
   \<and> distinct (map title_tag
        (tags (fold exec_tag [GetTags [''dog'', ''cat''] bob, CreateTag ''bird'' bob] db_cat_tag)))"
proof -
  have first: "create_tag ''cat'' alice empty_db = (cat_tag, db_cat_tag)"
    by (simp add: create_tag_def Let_def empty_db_def cat_tag_def db_cat_tag_def alice_def next_id_def)
  have new: "''cat'' \<notin> set (map title_tag (tags empty_db))"
    and dist: "distinct (map title_tag (tags empty_db))"
    by (simp_all add: empty_db_def)
  from tag_resolution_stable [OF first, of bob "[GetTags [''dog'', ''cat''] bob, CreateTag ''bird'' bob]"]
    first new dist
  show ?thesis by (simp del: fold_simps)
qed

section \<open>Properties of photo creation\<close>

lemma str_int_1: "str_int 1 = ''1''"
  by (simp add: str_int_def str_nat.simps)

lemma str_int_2: "str_int 2 = ''2''"
  by (simp add: str_int_def str_nat.simps)

lemma get_tags_fotos: "fotos (snd (get_tags ts u db)) = fotos db"
proof (induction ts arbitrary: db)
  case Nil
  then show ?case by simp
next
  case (Cons a ts)
  have "fotos (snd (create_tag a u db)) = fotos db"
    by (simp add: create_tag_def Let_def split: option.splits)
  with Cons.IH [of "snd (create_tag a u db)"] show ?case
    by (simp add: snd_get_tags_Cons del: get_tags.simps(2))
qed

text \<open>Whatever the store and the request, the public identifier is one of two strings.\<close>

lemma create_foto_public_id:
  "public_id (fst (create_foto build_url now title dsc tag_field file db u)) =
     Some (if find (\<lambda>f. user_id_foto f = Some (id_user u) \<and> id_foto f = 1) (fotos db) \<noteq> None
           then ''PhotoShake/2'' else ''PhotoShake/1'')"
  by (simp add: create_foto_def Let_def str_int_1 str_int_2 split: prod.splits)

text \<open>
  C9. Two different photos created by one owner are meant to get different public
  identifiers.  The code numbers the photo 1, or 2 when the owner already has the photo
  with id 1, so only two identifiers are ever given out: starting from the empty store,
  Alice creates three photos; they get the ids 1, 2 and 3, and the second and the third
  both get the public identifier \<open>PhotoShake/2\<close>.
\<close>

theorem create_foto_public_id_repeats:
  "(case create_foto demo_build_url 0 ''one'' ''first'' [] ''a'' empty_db alice of (f1, db1) \<Rightarrow>
    case create_foto demo_build_url 1 ''two'' ''second'' [] ''b'' db1 alice of (f2, db2) \<Rightarrow>
    case create_foto demo_build_url 2 ''three'' ''third'' [] ''c'' db2 alice of (f3, db3) \<Rightarrow>
      map id_foto (fotos db3) = [1, 2, 3]
      \<and> map user_id_foto (fotos db3) = [Some 1, Some 1, Some 1]
      \<and> map public_id (fotos db3) = [Some ''PhotoShake/1'', Some ''PhotoShake/2'', Some ''PhotoShake/2'']
      \<and> id_foto f2 \<noteq> id_foto f3 \<and> public_id f2 = public_id f3)"
  by (simp add: create_foto_def Let_def empty_db_def alice_def next_id_def str_int_1 str_int_2
      demo_build_url_def)

section \<open>Properties of the QR renderer on created photos\<close>

lemma get_tags_fotos_eq:
  assumes "get_tags ts u db = (gs, db')"
  shows "fotos db' = fotos db"
  using get_tags_fotos [of ts u db] assms by simp

lemma fold_max_ge: "a \<le> fold max ids (a :: int)"
proof (induction ids arbitrary: a)
  case Nil
  then show ?case by simp
next
  case (Cons x ids)
  have "a \<le> max x a" by simp
  also have "max x a \<le> fold max ids (max x a)" by (rule Cons.IH)
  finally show ?case by simp
qed

lemma fold_max_mem: "x \<in> set ids \<Longrightarrow> x \<le> fold max ids (a :: int)"
proof (induction ids arbitrary: a)
  case Nil
  then show ?case by simp
next
  case (Cons y ids)
  show ?case
  proof (cases "x = y")
    case True
    have "x \<le> max y a" using True by simp
    also have "max y a \<le> fold max ids (max y a)" by (rule fold_max_ge)
    finally show ?thesis by simp
  next
    case False
    with Cons.prems have "x \<in> set ids" by simp
    then show ?thesis by (simp add: Cons.IH)
  qed
qed

lemma next_id_fresh: "next_id ids \<notin> set ids"
proof
  assume "next_id ids \<in> set ids"
  then have "next_id ids \<le> fold max ids 0" by (rule fold_max_mem)
  then show False by (simp add: next_id_def)
qed

lemma qr_ready_show_qr:
  assumes "qr_ready fid u db" and "\<forall>url. qr url \<noteq> []"
  shows "\<exists>s. show_qr qr fid u db = Some s \<and> s \<noteq> []"
  using assms
  by (auto simp: qr_ready_def show_qr_def truthy_str_def split: option.splits)

lemma find_update_first_other:
  assumes "find p xs = Some x" and "\<And>y. p (g y) = p y"
  shows "find p (update_first q g xs) = Some x \<or> find p (update_first q g xs) = Some (g x)"
  using assms by (induction xs) (auto split: if_splits)

lemma qr_ready_update_first:
  assumes "qr_ready fid u db"
    and "\<And>y. user_id_foto (g y) = user_id_foto y \<and> id_foto (g y) = id_foto y
              \<and> (truthy_str (transform_url y) \<longrightarrow> truthy_str (transform_url (g y)))"
    and "fotos db' = update_first q g (fotos db)"
  shows "qr_ready fid u db'"
proof -
  let ?p = "\<lambda>f. user_id_foto f = Some (id_user u) \<and> id_foto f = fid"
  from assms(1) obtain x where x: "find ?p (fotos db) = Some x" "truthy_str (transform_url x)"
    by (auto simp: qr_ready_def split: option.splits)
  have "find ?p (update_first q g (fotos db)) = Some x
        \<or> find ?p (update_first q g (fotos db)) = Some (g x)"
    using x(1) by (rule find_update_first_other) (simp add: assms(2))
  with x(2) assms(2) [of x] assms(3) show ?thesis
    by (auto simp: qr_ready_def)
qed

lemma qr_ready_append:
  assumes "qr_ready fid u db" and "fotos db' = fotos db @ ys"
  shows "qr_ready fid u db'"
  using assms by (auto simp: qr_ready_def find_append_Some split: option.splits)

lemma transform_metod_qr_ready:
  assumes "qr_ready fid u db" and "\<forall>pid args. build_url pid args \<noteq> []"
  shows "qr_ready fid u (snd (transform_metod build_url fid' body u' db))"
proof (cases "find (\<lambda>f. user_id_foto f = Some (id_user u') \<and> id_foto f = fid') (fotos db)")
  case None
  with assms(1) show ?thesis by (simp add: transform_metod_def)
next
  case (Some foto)
  show ?thesis
  proof (cases "transformation body = []")
    case True
    with Some assms(1) show ?thesis by (simp add: transform_metod_def)
  next
    case False
    let ?url = "build_url (public_id foto) [(''transformation'', VList (map VDict (transformation body)))]"
    have "qr_ready fid u (snd (transform_metod build_url fid' body u' db))"
    proof (rule qr_ready_update_first [OF assms(1)])
      show "fotos (snd (transform_metod build_url fid' body u' db)) =
            update_first (\<lambda>f. user_id_foto f = Some (id_user u') \<and> id_foto f = fid')
              (\<lambda>f. f\<lparr>transform_url := Some ?url\<rparr>) (fotos db)"
        using Some False by (simp add: transform_metod_def Let_def)
      show "user_id_foto (y\<lparr>transform_url := Some ?url\<rparr>) = user_id_foto y
            \<and> id_foto (y\<lparr>transform_url := Some ?url\<rparr>) = id_foto y
            \<and> (truthy_str (transform_url y) \<longrightarrow> truthy_str (transform_url (y\<lparr>transform_url := Some ?url\<rparr>)))"
        for y
        using assms(2) by (simp add: truthy_str_def)
    qed
    then show ?thesis .
  qed
qed

lemma update_foto_qr_ready:
  assumes "qr_ready fid u db"
  shows "qr_ready fid u (snd (update_foto now fid' body u' db))"
proof (cases "find (\<lambda>f. id_foto f = fid') (fotos db)")
  case None
  with assms show ?thesis by (simp add: update_foto_def)
next
  case (Some foto)
  show ?thesis
  proof (cases "role u' = role_admin \<or> user_id_foto foto = Some (id_user u')")
    case False
    with Some assms show ?thesis by (simp add: update_foto_def)
  next
    case True
    let ?r = "if upd_tags body \<noteq> [] then get_tags (upd_tags body) u' db else ([], db)"
    let ?upd = "\<lambda>f. f\<lparr>title_foto := Some (upd_title body), descr := Some (upd_descr body),
                       tags_foto := map id_tag (fst ?r), updated_at := now, done_foto := True\<rparr>"
    have run: "fotos (snd (update_foto now fid' body u' db)) =
               update_first (\<lambda>f. id_foto f = fid') ?upd (fotos db)"
      using Some True
      by (auto simp: update_foto_def Let_def split: prod.splits dest!: get_tags_fotos_eq)
    show ?thesis
      by (rule qr_ready_update_first [OF assms _ run]) simp
  qed
qed

lemma create_foto_fotos:
  assumes "create_foto build_url now title dsc tag_field file db u = (foto, db')"
  shows "fotos db' = fotos db @ [foto]"
  using assms
  by (auto simp: create_foto_def Let_def split: prod.splits if_splits dest!: get_tags_fotos_eq)

lemma create_foto_row:
  assumes "create_foto build_url now title dsc tag_field file db u = (foto, db')"
  shows "id_foto foto = next_id (map id_foto (fotos db))"
    and "user_id_foto foto = Some (id_user u)"
    and "transform_url foto = image_url foto"
    and "image_url foto =
           Some (build_url (public_id foto)
                  [(''width'', VInt 250), (''height'', VInt 250), (''crop'', VStr ''fill'')])"
  using assms
  by (auto simp: create_foto_def Let_def split: prod.splits if_splits dest!: get_tags_fotos_eq)

lemma create_foto_qr_ready:
  assumes "qr_ready fid u db"
  shows "qr_ready fid u (snd (create_foto build_url now title dsc tag_field file db u'))"
proof -
  obtain foto db' where c: "create_foto build_url now title dsc tag_field file db u' = (foto, db')"
    by (cases "create_foto build_url now title dsc tag_field file db u'")
  from create_foto_fotos [OF c] have "fotos db' = fotos db @ [foto]" .
  with assms have "qr_ready fid u db'" by (rule qr_ready_append)
  with c show ?thesis by simp
qed

lemma exec_foto_qr_ready:
  assumes "qr_ready fid u db" and "\<forall>pid args. build_url pid args \<noteq> []"
  shows "qr_ready fid u (exec_foto build_url c db)"
  using assms
  by (cases c) (simp_all add: create_foto_qr_ready transform_metod_qr_ready update_foto_qr_ready)

lemma fold_exec_foto_qr_ready:
  assumes "qr_ready fid u db" and "\<forall>pid args. build_url pid args \<noteq> []"
  shows "qr_ready fid u (fold (exec_foto build_url) cs db)"
  using assms by (induction cs arbitrary: db) (simp_all add: exec_foto_qr_ready)

lemma find_fresh_append:
  assumes "\<forall>x\<in>set xs. \<not> p x" and "p y"
  shows "find p (xs @ [y]) = Some y"
  using assms by (induction xs) auto

text \<open>
  C10. Provided the image service never returns an empty URL and the QR encoder never
  returns an empty string: a photo created by \<^verbatim>\<open>create_foto\<close> has the same, non-empty
  URL as image URL and as transform URL; and after any further photo creations,
  transformations and photo updates, by any users, \<^verbatim>\<open>show_qr\<close> called by the creator for
  that photo does not take the empty-URL branch but returns a non-empty string.
\<close>

theorem created_foto_qr:
  assumes url_ok: "\<forall>pid args. build_url pid args \<noteq> []"
    and qr_ok: "\<forall>url. qr url \<noteq> []"
    and created: "create_foto build_url now title dsc tag_field file db u = (foto, db1)"
  shows "transform_url foto = image_url foto
       \<and> (\<exists>url. image_url foto = Some url \<and> url \<noteq> [])
       \<and> (\<exists>s. show_qr qr (id_foto foto) u (fold (exec_foto build_url) cs db1) = Some s
                \<and> s \<noteq> [])"
proof -
  let ?p = "\<lambda>f. user_id_foto f = Some (id_user u) \<and> id_foto f = id_foto foto"
  note row = create_foto_row [OF created]
  from row(4) url_ok have url: "\<exists>url. image_url foto = Some url \<and> url \<noteq> []" by auto
  have "id_foto foto \<notin> set (map id_foto (fotos db))"
    unfolding row(1) by (rule next_id_fresh)
  then have "\<forall>x\<in>set (fotos db). \<not> ?p x" by (metis image_eqI set_map)
  moreover have "?p foto" using row(2) by simp
  ultimately have "find ?p (fotos db @ [foto]) = Some foto" by (rule find_fresh_append)
  then have "find ?p (fotos db1) = Some foto" by (simp add: create_foto_fotos [OF created])
  moreover have "truthy_str (transform_url foto)"
    using url row(3) by (auto simp: truthy_str_def)
  ultimately have "qr_ready (id_foto foto) u db1" by (simp add: qr_ready_def)
  then have "qr_ready (id_foto foto) u (fold (exec_foto build_url) cs db1)"
    using url_ok by (rule fold_exec_foto_qr_ready)
  then have "\<exists>s. show_qr qr (id_foto foto) u (fold (exec_foto build_url) cs db1) = Some s \<and> s \<noteq> []"
    using qr_ok by (rule qr_ready_show_qr)
  with row(3) url show ?thesis by blast
qed

theorem created_foto_qr_witness:
  "transform_url (fst (create_foto demo_build_url 0 ''cat'' ''pet'' [''cat,pet''] ''bytes'' empty_db alice))
     = image_url (fst (create_foto demo_build_url 0 ''cat'' ''pet'' [''cat,pet''] ''bytes'' empty_db alice))
   \<and> truthy_str (image_url (fst (create_foto demo_build_url 0 ''cat'' ''pet'' [''cat,pet''] ''bytes'' empty_db alice)))
   \<and> show_qr demo_qr
        (id_foto (fst (create_foto demo_build_url 0 ''cat'' ''pet'' [''cat,pet''] ''bytes'' empty_db alice)))
        alice
        (fold (exec_foto demo_build_url)
           [TransformMetod 1 body_rotate_45 alice,
            UpdateFoto 5 1 \<lparr>upd_title = ''kitten'', upd_descr = ''pet'', upd_tags = [''cat'']\<rparr> alice,
            CreateFoto 7 ''dog'' ''pet'' [] ''bytes'' bob]
           (snd (create_foto demo_build_url 0 ''cat'' ''pet'' [''cat,pet''] ''bytes'' empty_db alice)))
       \<noteq> None
   \<and> the (show_qr demo_qr
        (id_foto (fst (create_foto demo_build_url 0 ''cat'' ''pet'' [''cat,pet''] ''bytes'' empty_db alice)))
        alice
        (fold (exec_foto demo_build_url)
           [TransformMetod 1 body_rotate_45 alice,
            UpdateFoto 5 1 \<lparr>upd_title = ''kitten'', upd_descr = ''pet'', upd_tags = [''cat'']\<rparr> alice,
            CreateFoto 7 ''dog'' ''pet'' [] ''bytes'' bob]
           (snd (create_foto demo_build_url 0 ''cat'' ''pet'' [''cat,pet''] ''bytes'' empty_db alice))))
       \<noteq> []"
proof -
  have url_ok: "\<forall>pid args. demo_build_url pid args \<noteq> []"
    by (simp add: demo_build_url_def)
  have qr_ok: "\<forall>url. demo_qr url \<noteq> []"
    by (simp add: demo_qr_def)
  have created:
    "create_foto demo_build_url 0 ''cat'' ''pet'' [''cat,pet''] ''bytes'' empty_db alice =
       (fst (create_foto demo_build_url 0 ''cat'' ''pet'' [''cat,pet''] ''bytes'' empty_db alice),
        snd (create_foto demo_build_url 0 ''cat'' ''pet'' [''cat,pet''] ''bytes'' empty_db alice))"
    by simp
  from created_foto_qr [OF url_ok qr_ok created,
      of "[TransformMetod 1 body_rotate_45 alice,
            UpdateFoto 5 1 \<lparr>upd_title = ''kitten'', upd_descr = ''pet'', upd_tags = [''cat'']\<rparr> alice,
            CreateFoto 7 ''dog'' ''pet'' [] ''bytes'' bob]"]
  show ?thesis
    by (auto simp: truthy_str_def simp del: fold_simps)
qed

text \<open>The same run, evaluated: the QR code of the URL the photo was created with.\<close>

lemma show_qr_example:
  "show_qr demo_qr 1 alice
        (fold (exec_foto demo_build_url)
           [TransformMetod 1 body_rotate_45 alice,
            UpdateFoto 5 1 \<lparr>upd_title = ''kitten'', upd_descr = ''pet'', upd_tags = [''cat'']\<rparr> alice,
            CreateFoto 7 ''dog'' ''pet'' [] ''bytes'' bob]
           (snd (create_foto demo_build_url 0 ''cat'' ''pet'' [''cat,pet''] ''bytes'' empty_db alice)))
   = Some ''QR:https://img.example/PhotoShake/1''"
  by (simp add: create_foto_def Let_def empty_db_def alice_def bob_def next_id_def
      demo_build_url_def demo_qr_def show_qr_def transform_metod_def update_foto_def
      str_int_def str_nat.simps create_tag_def
      body_rotate_45_def body_off_def no_circle_def no_effect_def no_text_def
      no_resize_def transformation_def circle_ops_def effect_ops_def resize_ops_def text_ops_def
      rotate_ops_def truthy_int_def fstr_int_def)

end
